theory Spec2Isabelle
  imports Main
begin

section \<open>JavaScript values used by the flight service\<close>

text \<open>
  JSON values, as \<^verbatim>\<open>JSON.parse\<close> yields them and \<^verbatim>\<open>JSON.stringify\<close> consumes them.
  Numbers are the integers the service handles (passenger counts, popularity scores).
  An object is the list of its fields in insertion order.
\<close>

datatype json =
    JNull
  | JBool bool
  | JNum int
  | JStr string
  | JArr "json list"
  | JObj "(string \<times> json) list"

text \<open>
  A string held by \<^verbatim>\<open>AsyncStorage\<close>, classified by what the service can observe of it:
  the empty string (falsy in \<^verbatim>\<open>if (stored)\<close>), a non-empty string that \<^verbatim>\<open>JSON.parse\<close>
  rejects, or a string that \<^verbatim>\<open>JSON.parse\<close> maps to the given value (the string
  \<^verbatim>\<open>JSON.stringify\<close> writes for it).
\<close>

datatype stored = EmptyString | Unparsable | Stringified json

text \<open>
  A thrown value as the \<^verbatim>\<open>catch\<close> blocks inspect it: \<^verbatim>\<open>error.response?.status\<close>,
  \<^verbatim>\<open>error.response?.data?.message\<close> and \<^verbatim>\<open>error.message\<close>. A plain \<^verbatim>\<open>new Error(m)\<close> has no
  \<^verbatim>\<open>response\<close>.
\<close>

record http_response =
  status :: nat
  data_message :: "string option"

record js_error =
  response :: "http_response option"
  message :: string

definition Error :: "string \<Rightarrow> js_error" where
  "Error m = \<lparr>response = None, message = m\<rparr>"

text \<open>\<^verbatim>\<open>x || d\<close> on an optional string: the default replaces \<^verbatim>\<open>undefined\<close> and \<^verbatim>\<open>''\<close>.\<close>

definition or_else :: "string option \<Rightarrow> string \<Rightarrow> string" where
  "or_else x d = (case x of None \<Rightarrow> d | Some s \<Rightarrow> if s = '''' then d else s)"

text \<open>\<^verbatim>\<open>!x\<close> on an optional string.\<close>

definition falsy :: "string option \<Rightarrow> bool" where
  "falsy x = (case x of None \<Rightarrow> True | Some s \<Rightarrow> s = '''')"

text \<open>\<^verbatim>\<open>Number.prototype.toString()\<close> on an integer: decimal digits, a minus sign when negative.\<close>

fun digits :: "nat \<Rightarrow> string" where
  "digits n = (if n < 10 then [''0123456789'' ! n]
               else digits (n div 10) @ [''0123456789'' ! (n mod 10)])"

definition toString :: "int \<Rightarrow> string" where
  "toString i = (if i < 0 then CHR ''-'' # digits (nat (- i)) else digits (nat i))"

text \<open>
  Upper-casing of ASCII text, letter by letter: what \<^verbatim>\<open>String.prototype.toUpperCase()\<close> does
  on strings of ASCII characters. On other characters the engine follows the Unicode
  case mappings (one character may become several), so the engine's own function is a
  parameter of the service, see \<open>engine\<close> below.
\<close>

definition ascii_upper_char :: "char \<Rightarrow> char" where
  "ascii_upper_char c = (let n = (of_char c :: nat) in
                         if 97 \<le> n \<and> n \<le> 122 then char_of (n - 32) else c)"

definition ascii_upper :: "string \<Rightarrow> string" where
  "ascii_upper s = map ascii_upper_char s"

definition ascii :: "string \<Rightarrow> bool" where
  "ascii s = list_all (\<lambda>c. (of_char c :: nat) < 128) s"

text \<open>\<^verbatim>\<open>String.prototype.trim()\<close>: strips space, tab, LF, VT, FF and CR at both ends.\<close>

definition whitespace :: "char \<Rightarrow> bool" where
  "whitespace c = (c \<in> set [CHR '' '', CHR 0x09, CHR 0x0A, CHR 0x0B, CHR 0x0C, CHR 0x0D])"

definition trim :: "string \<Rightarrow> string" where
  "trim s = rev (dropWhile whitespace (rev (dropWhile whitespace s)))"


text \<open>
  Truthiness of a JSON value, \<^verbatim>\<open>v.k\<close> on a value that is not null (\<open>None\<close> is
  \<^verbatim>\<open>undefined\<close>; the keys of an object are distinct), \<^verbatim>\<open>v.length\<close>, and \<^verbatim>\<open>x || d\<close>.
\<close>

definition truthy :: "json \<Rightarrow> bool" where
  "truthy v =
     (case v of
        JNull \<Rightarrow> False
      | JBool b \<Rightarrow> b
      | JNum n \<Rightarrow> n \<noteq> 0
      | JStr s \<Rightarrow> s \<noteq> ''''
      | JArr xs \<Rightarrow> True
      | JObj kvs \<Rightarrow> True)"

definition property :: "json \<Rightarrow> string \<Rightarrow> json option" where
  "property v k = (case v of JObj kvs \<Rightarrow> map_of kvs k | _ \<Rightarrow> None)"

definition js_length :: "json \<Rightarrow> json option" where
  "js_length v =
     (case v of
        JArr xs \<Rightarrow> Some (JNum (int (length xs)))
      | JStr s \<Rightarrow> Some (JNum (int (length s)))
      | JObj kvs \<Rightarrow> map_of kvs ''length''
      | _ \<Rightarrow> None)"

definition or_json :: "json option \<Rightarrow> json \<Rightarrow> json" where
  "or_json x d = (case x of None \<Rightarrow> d | Some v \<Rightarrow> if truthy v then v else d)"

section \<open>Data model\<close>

text \<open>
  \<^verbatim>\<open>FlightSearchRequest\<close> as the service reads it. The location codes and the departure
  date are strings; the fields the service guards with \<^verbatim>\<open>?.\<close>, \<^verbatim>\<open>||\<close> or \<^verbatim>\<open>&&\<close> may be
  \<^verbatim>\<open>undefined\<close> (\<open>None\<close>).
\<close>

record FlightSearchRequest =
  originLocationCode :: string
  destinationLocationCode :: string
  originEntityId :: "string option"
  destinationEntityId :: "string option"
  departureDate :: string
  returnDate :: "string option"
  adults :: "int option"
  children :: "int option"
  infants :: "int option"
  travelClass :: "string option"
  currencyCode :: "string option"

text \<open>
  The body posted to \<^verbatim>\<open>/flights/search\<close>: an object literal whose values are all strings,
  kept as the list of its fields in the order the service sets them.
\<close>

type_synonym body = "(string \<times> string) list"

text \<open>
  What the JavaScript engine decides: \<open>valid_date js s\<close> (for an engine \<open>js\<close>) is
  \<^verbatim>\<open>!isNaN(new Date(s).getTime())\<close>, \<open>toUpperCase\<close> is \<^verbatim>\<open>String.prototype.toUpperCase\<close>,
  and \<open>null_read_text\<close> is the message of the \<^verbatim>\<open>TypeError\<close> it throws when a property of
  \<^verbatim>\<open>null\<close> is read.
\<close>

record engine =
  valid_date :: "string \<Rightarrow> bool"
  toUpperCase :: "string \<Rightarrow> string"
  null_read_text :: string

text \<open>
  \<^verbatim>\<open>FlightSearchResponse\<close>: \<open>count\<close> is \<^verbatim>\<open>meta.count\<close> and \<open>self\<close> is \<^verbatim>\<open>meta.links.self\<close>.
  The service fills \<open>data\<close>, \<open>count\<close> and \<open>dictionaries\<close> with whatever the reply holds, so
  they are JSON values.
\<close>

record FlightSearchResponse =
  data :: json
  count :: json
  self :: string
  dictionaries :: json

section \<open>The environment: storage, network, clock\<close>

text \<open>
  What one call of the service meets outside the program: the reply of the backend to a
  posted body (a rejection, or the body \<^verbatim>\<open>response.data\<close> of the response, which may be any
  JSON value; \<open>JNull\<close> also stands for a body that is undefined), and the clock reading
  behind \<^verbatim>\<open>Date.now()\<close> and
  \<^verbatim>\<open>new Date().toISOString()\<close>.
\<close>

record occasion =
  server :: "body \<Rightarrow> js_error + json"
  now_ms :: nat
  now_iso :: string

text \<open>
  The device: the content of \<^verbatim>\<open>AsyncStorage\<close>; a script saying which of the coming
  storage calls reject (\<open>True\<close>; an exhausted script means the call resolves); the
  \<^verbatim>\<open>setItem\<close> calls carried out so far and the bodies posted so far, oldest first.
\<close>

record world =
  items :: "string \<rightharpoonup> stored"
  faults :: "bool list"
  writes :: "(string \<times> stored) list"
  posted :: "body list"

definition next_fault :: "world \<Rightarrow> bool \<times> world" where
  "next_fault w = (case faults w of [] \<Rightarrow> (False, w) | b # bs \<Rightarrow> (b, w\<lparr>faults := bs\<rparr>))"

definition getItem :: "string \<Rightarrow> world \<Rightarrow> (js_error + stored option) \<times> world" where
  "getItem k w =
     (case next_fault w of (b, w') \<Rightarrow>
        if b then (Inl (Error ''AsyncStorage.getItem failed''), w')
        else (Inr (items w' k), w'))"

definition setItem :: "string \<Rightarrow> stored \<Rightarrow> world \<Rightarrow> (js_error + unit) \<times> world" where
  "setItem k v w =
     (case next_fault w of (b, w') \<Rightarrow>
        if b then (Inl (Error ''AsyncStorage.setItem failed''), w')
        else (Inr (), w'\<lparr>items := (items w')(k \<mapsto> v), writes := writes w' @ [(k, v)]\<rparr>))"

definition removeItem :: "string \<Rightarrow> world \<Rightarrow> (js_error + unit) \<times> world" where
  "removeItem k w =
     (case next_fault w of (b, w') \<Rightarrow>
        if b then (Inl (Error ''AsyncStorage.removeItem failed''), w')
        else (Inr (), w'\<lparr>items := (items w')(k := None)\<rparr>))"

text \<open>\<^verbatim>\<open>if (stored)\<close>: a string was returned and it is not empty.\<close>

definition present :: "stored option \<Rightarrow> bool" where
  "present s = (case s of None \<Rightarrow> False | Some EmptyString \<Rightarrow> False | Some _ \<Rightarrow> True)"

definition JSON_parse :: "stored \<Rightarrow> js_error + json" where
  "JSON_parse s = (case s of Stringified v \<Rightarrow> Inr v | _ \<Rightarrow> Inl (Error ''SyntaxError''))"

definition JSON_stringify :: "json \<Rightarrow> stored" where
  "JSON_stringify v = Stringified v"

text \<open>\<^verbatim>\<open>api.post('/flights/search', body)\<close>: the body goes out, the backend's reply comes back.\<close>

definition api_post :: "occasion \<Rightarrow> body \<Rightarrow> world \<Rightarrow> (js_error + json) \<times> world" where
  "api_post oc b w = (server oc b, w\<lparr>posted := posted w @ [b]\<rparr>)"


section \<open>The flight service\<close>

definition RECENT_SEARCHES_KEY :: string where
  "RECENT_SEARCHES_KEY = ''@gflights_recent_searches''"

definition POPULAR_ROUTES_KEY :: string where
  "POPULAR_ROUTES_KEY = ''@gflights_popular_routes''"

definition PopularRoute :: "string \<Rightarrow> string \<Rightarrow> string \<Rightarrow> string \<Rightarrow> string \<Rightarrow> int \<Rightarrow> json" where
  "PopularRoute org dst orgName dstName price pop =
     JObj [(''origin'', JStr org), (''destination'', JStr dst),
           (''originName'', JStr orgName), (''destinationName'', JStr dstName),
           (''averagePrice'', JStr price), (''popularity'', JNum pop)]"

definition mockPopularRoutes :: json where
  "mockPopularRoutes = JArr
     [PopularRoute ''JFK'' ''LAX'' ''New York (JFK)'' ''Los Angeles (LAX)'' ''320'' 95,
      PopularRoute ''LAX'' ''SFO'' ''Los Angeles (LAX)'' ''San Francisco (SFO)'' ''180'' 88,
      PopularRoute ''ORD'' ''LAX'' ''Chicago (ORD)'' ''Los Angeles (LAX)'' ''290'' 82,
      PopularRoute ''JFK'' ''LHR'' ''New York (JFK)'' ''London (LHR)'' ''650'' 78,
      PopularRoute ''LAX'' ''NRT'' ''Los Angeles (LAX)'' ''Tokyo (NRT)'' ''890'' 75]"

subsection \<open>\<^verbatim>\<open>searchFlights\<close>: the request normalizer\<close>

definition convertCabinClass :: "engine \<Rightarrow> string option \<Rightarrow> string" where
  "convertCabinClass js tc =
     (case map_option (toUpperCase js) tc of
        None \<Rightarrow> ''economy''
      | Some u \<Rightarrow>
          if u = ''ECONOMY'' then ''economy''
          else if u = ''PREMIUM_ECONOMY'' then ''premium_economy''
          else if u = ''BUSINESS'' then ''business''
          else if u = ''FIRST'' then ''first''
          else ''economy'')"

definition INVALID_DEPARTURE :: string where
  "INVALID_DEPARTURE = ''Invalid departure date format''"

definition CODES_REQUIRED :: string where
  "CODES_REQUIRED = ''Origin and destination airport codes are required''"

definition ENTITY_IDS_REQUIRED :: string where
  "ENTITY_IDS_REQUIRED =
     ''Origin and destination entity IDs are required. Please select airports from the search results.''"

definition AUTH_REQUIRED :: string where
  "AUTH_REQUIRED = ''Authentication required. Please login again.''"

text \<open>
  The object literal \<^verbatim>\<open>backendRequest\<close> with the \<^verbatim>\<open>returnDate\<close> field added after it when
  the return date is given, not blank, and a date. The entity identifiers are read only
  after the check that they are strings.
\<close>

definition backendRequest :: "engine \<Rightarrow> FlightSearchRequest \<Rightarrow> body" where
  "backendRequest js rq =
     [(''originSkyId'', originLocationCode rq),
      (''destinationSkyId'', destinationLocationCode rq),
      (''originEntityId'', the (originEntityId rq)),
      (''destinationEntityId'', the (destinationEntityId rq)),
      (''departureDate'', departureDate rq),
      (''cabinClass'', convertCabinClass js (travelClass rq)),
      (''adults'', or_else (map_option toString (adults rq)) ''1''),
      (''children'', or_else (map_option toString (children rq)) ''0''),
      (''infants'', or_else (map_option toString (infants rq)) ''0''),
      (''sortBy'', ''best''),
      (''currency'', or_else (currencyCode rq) ''USD''),
      (''market'', ''en-US''),
      (''countryCode'', ''US'')]
     @ (case returnDate rq of
          None \<Rightarrow> []
        | Some rd \<Rightarrow>
            if rd \<noteq> '''' \<and> trim rd \<noteq> '''' then
              (if valid_date js rd then [(''returnDate'', rd)] else [])
            else [])"

text \<open>The \<^verbatim>\<open>try\<close> block up to the network call: the three checks, then the body.\<close>

definition normalizeRequest :: "engine \<Rightarrow> FlightSearchRequest \<Rightarrow> js_error + body" where
  "normalizeRequest js rq =
     (if \<not> valid_date js (departureDate rq) then Inl (Error INVALID_DEPARTURE)
      else if originLocationCode rq = '''' \<or> destinationLocationCode rq = ''''
        then Inl (Error CODES_REQUIRED)
      else if falsy (originEntityId rq) \<or> falsy (destinationEntityId rq)
        then Inl (Error ENTITY_IDS_REQUIRED)
      else Inr (backendRequest js rq))"

subsection \<open>\<^verbatim>\<open>saveRecentSearch\<close>, \<^verbatim>\<open>getRecentSearches\<close>, \<^verbatim>\<open>clearRecentSearches\<close>\<close>

text \<open>
  The \<^verbatim>\<open>RecentSearch\<close> object as \<^verbatim>\<open>JSON.stringify\<close> sees it: an undefined \<^verbatim>\<open>returnDate\<close> is
  left out, and a sum with an undefined \<^verbatim>\<open>adults\<close> is \<^verbatim>\<open>NaN\<close>, written as \<^verbatim>\<open>null\<close>.
\<close>

definition num_or_zero :: "int option \<Rightarrow> int" where
  "num_or_zero x = (case x of None \<Rightarrow> 0 | Some n \<Rightarrow> n)"

definition recentSearch :: "occasion \<Rightarrow> FlightSearchRequest \<Rightarrow> json" where
  "recentSearch oc rq = JObj
     ([(''id'', JStr (digits (now_ms oc))),
       (''origin'', JStr (originLocationCode rq)),
       (''destination'', JStr (destinationLocationCode rq)),
       (''departureDate'', JStr (departureDate rq))]
      @ (case returnDate rq of None \<Rightarrow> [] | Some rd \<Rightarrow> [(''returnDate'', JStr rd)])
      @ [(''passengers'',
            (case adults rq of
               None \<Rightarrow> JNull
             | Some a \<Rightarrow> JNum (a + num_or_zero (children rq) + num_or_zero (infants rq)))),
         (''searchedAt'', JStr (now_iso oc))])"

text \<open>
  Every statement is inside the \<^verbatim>\<open>try\<close>; the \<^verbatim>\<open>catch\<close> only logs. So a rejected
  \<^verbatim>\<open>getItem\<close>, a \<^verbatim>\<open>JSON.parse\<close> that throws, a parsed value without \<^verbatim>\<open>unshift\<close> (anything
  but an array) and a rejected \<^verbatim>\<open>setItem\<close> all end the call with nothing written.
\<close>

definition saveRecentSearch :: "occasion \<Rightarrow> FlightSearchRequest \<Rightarrow> world \<Rightarrow> world" where
  "saveRecentSearch oc rq w =
     (case getItem RECENT_SEARCHES_KEY w of
        (Inl e, w1) \<Rightarrow> w1
      | (Inr stored, w1) \<Rightarrow>
          (case (if present stored then JSON_parse (the stored) else Inr (JArr [])) of
             Inl e \<Rightarrow> w1
           | Inr (JArr recentSearches) \<Rightarrow>
               (let limitedSearches = take 10 (recentSearch oc rq # recentSearches)
                in snd (setItem RECENT_SEARCHES_KEY (JSON_stringify (JArr limitedSearches)) w1))
           | Inr _ \<Rightarrow> w1))"

definition getRecentSearches :: "world \<Rightarrow> json \<times> world" where
  "getRecentSearches w =
     (case getItem RECENT_SEARCHES_KEY w of
        (Inl e, w1) \<Rightarrow> (JArr [], w1)
      | (Inr stored, w1) \<Rightarrow>
          if present stored then
            (case JSON_parse (the stored) of Inl e \<Rightarrow> (JArr [], w1) | Inr v \<Rightarrow> (v, w1))
          else (JArr [], w1))"

definition clearRecentSearches :: "world \<Rightarrow> world" where
  "clearRecentSearches w = snd (removeItem RECENT_SEARCHES_KEY w)"

subsection \<open>\<^verbatim>\<open>getPopularRoutes\<close>\<close>

definition getPopularRoutes :: "world \<Rightarrow> json \<times> world" where
  "getPopularRoutes w =
     (case getItem POPULAR_ROUTES_KEY w of
        (Inl e, w1) \<Rightarrow> (mockPopularRoutes, w1)
      | (Inr stored, w1) \<Rightarrow>
          if present stored then
            (case JSON_parse (the stored) of
               Inl e \<Rightarrow> (mockPopularRoutes, w1)
             | Inr v \<Rightarrow> (v, w1))
          else
            (case setItem POPULAR_ROUTES_KEY (JSON_stringify mockPopularRoutes) w1 of
               (Inl e, w2) \<Rightarrow> (mockPopularRoutes, w2)
             | (Inr u, w2) \<Rightarrow> (mockPopularRoutes, w2)))"

subsection \<open>\<^verbatim>\<open>searchFlights\<close>: the response shaper and the whole call\<close>

text \<open>
  The statements after the save: \<^verbatim>\<open>response.data.data || []\<close>,
  \<^verbatim>\<open>responseData.length || 0\<close> and \<^verbatim>\<open>response.data.dictionaries || {}\<close>, on the reply body
  \<^verbatim>\<open>response.data\<close> as it came. Reading \<^verbatim>\<open>.data\<close> of a null body throws.
\<close>

definition shape :: "engine \<Rightarrow> json \<Rightarrow> js_error + FlightSearchResponse" where
  "shape js body =
     (if body = JNull then Inl (Error (null_read_text js))
      else
        (let responseData = or_json (property body ''data'') (JArr [])
         in Inr \<lparr>data = responseData,
                 count = or_json (js_length responseData) (JNum 0),
                 self = ''/flights/search'',
                 dictionaries = or_json (property body ''dictionaries'') (JObj [])\<rparr>))"

text \<open>The \<^verbatim>\<open>catch\<close> block of \<^verbatim>\<open>searchFlights\<close>: what is thrown to the caller.\<close>

definition rethrow :: "js_error \<Rightarrow> js_error" where
  "rethrow error =
     (if map_option status (response error) = Some 401 then Error AUTH_REQUIRED
      else
        (let errorMessage =
               or_else (case response error of None \<Rightarrow> None | Some r \<Rightarrow> data_message r)
                       (message error)
         in Error (''Flight search failed: '' @ errorMessage)))"

definition searchFlights ::
  "engine \<Rightarrow> occasion \<Rightarrow> FlightSearchRequest \<Rightarrow> world
     \<Rightarrow> (js_error + FlightSearchResponse) \<times> world" where
  "searchFlights js oc rq w =
     (case normalizeRequest js rq of
        Inl error \<Rightarrow> (Inl (rethrow error), w)
      | Inr b \<Rightarrow>
          (case api_post oc b w of
             (Inl error, w1) \<Rightarrow> (Inl (rethrow error), w1)
           | (Inr body, w1) \<Rightarrow>
               (let w2 = saveRecentSearch oc rq w1
                in case shape js body of
                     Inl error \<Rightarrow> (Inl (rethrow error), w2)
                   | Inr resp \<Rightarrow> (Inr resp, w2))))"

section \<open>The callers: flight context and search screen\<close>

text \<open>The state the \<^verbatim>\<open>FlightProvider\<close> keeps for the screens.\<close>

record flight_context =
  flightOffers :: json
  recentSearches :: json
  isLoading :: bool
  searchError :: "string option"

text \<open>
  \<^verbatim>\<open>FlightContext.searchFlights\<close>: it calls the service, stores the offers and refreshes the
  recent searches, or stores the error message; it never throws.
\<close>

definition context_searchFlights ::
  "engine \<Rightarrow> occasion \<Rightarrow> FlightSearchRequest \<Rightarrow> flight_context \<times> world
     \<Rightarrow> flight_context \<times> world" where
  "context_searchFlights js oc rq cw =
     (case cw of (c, w) \<Rightarrow>
        (case searchFlights js oc rq w of
           (Inr resp, w1) \<Rightarrow>
             (case getRecentSearches w1 of (searches, w2) \<Rightarrow>
                (c\<lparr>flightOffers := data resp, recentSearches := searches,
                   isLoading := False, searchError := None\<rparr>, w2))
         | (Inl error, w1) \<Rightarrow>
             (c\<lparr>flightOffers := JArr [], isLoading := False,
                searchError := Some (or_else (Some (message error)) ''Failed to search flights'')\<rparr>,
              w1)))"

datatype screen_event = Alert string string | Navigate string

text \<open>\<^verbatim>\<open>handleSearch\<close> of the flight search screen.\<close>

definition handleSearch ::
  "engine \<Rightarrow> occasion \<Rightarrow> FlightSearchRequest \<Rightarrow> flight_context \<times> world
     \<Rightarrow> screen_event \<times> flight_context \<times> world" where
  "handleSearch js oc rq cw =
     (if originLocationCode rq = '''' \<or> destinationLocationCode rq = '''' \<or> departureDate rq = ''''
        then (Alert ''Missing Information'' ''Please fill in all required fields'', cw)
      else if originLocationCode rq = destinationLocationCode rq
        then (Alert ''Invalid Route'' ''Origin and destination cannot be the same'', cw)
      else (Navigate ''FlightResults'', context_searchFlights js oc rq cw))"

section \<open>Reference notions for the statements\<close>

text \<open>\<^verbatim>\<open>String.prototype.toLowerCase()\<close> on the ASCII letters.\<close>

definition lower_char :: "char \<Rightarrow> char" where
  "lower_char c = (let n = (of_char c :: nat) in
                   if 65 \<le> n \<and> n \<le> 90 then char_of (n + 32) else c)"

definition toLowerCase :: "string \<Rightarrow> string" where
  "toLowerCase s = map lower_char s"

text \<open>The travel classes of the search form.\<close>

definition UI_CLASSES :: "string list" where
  "UI_CLASSES = [''ECONOMY'', ''PREMIUM_ECONOMY'', ''BUSINESS'', ''FIRST'']"


text \<open>No coming storage call rejects.\<close>

definition calm :: "world \<Rightarrow> bool" where
  "calm w = (True \<notin> set (faults w))"

text \<open>
  The list a stored value stands for when \<^verbatim>\<open>saveRecentSearch\<close> can use it: an absent
  value and the empty string stand for the empty list, the text of a JSON array for
  that array; no other value stands for a list.
\<close>

definition current_list :: "stored option \<Rightarrow> json list option" where
  "current_list s =
     (case s of
        None \<Rightarrow> Some []
      | Some EmptyString \<Rightarrow> Some []
      | Some (Stringified (JArr xs)) \<Rightarrow> Some xs
      | Some _ \<Rightarrow> None)"

text \<open>The message the backend sent with a failure, when it sent a non-empty one.\<close>

definition upstream_message :: "js_error \<Rightarrow> string option" where
  "upstream_message error =
     (case response error of
        None \<Rightarrow> None
      | Some r \<Rightarrow>
          (case data_message r of
             None \<Rightarrow> None
           | Some m \<Rightarrow> if m = '''' then None else Some m))"

text \<open>A sequence of searches, each on its own occasion, oldest first.\<close>

fun run_searches ::
  "engine \<Rightarrow> (occasion \<times> FlightSearchRequest) list \<Rightarrow> world
     \<Rightarrow> (js_error + FlightSearchResponse) list \<times> world" where
  "run_searches js [] w = ([], w)"
| "run_searches js (call # calls) w =
     (case searchFlights js (fst call) (snd call) w of
        (r, w1) \<Rightarrow>
          (case run_searches js calls w1 of (rs, w2) \<Rightarrow> (r # rs, w2)))"

section \<open>Sample inputs\<close>

definition demo_engine :: engine where
  "demo_engine =
     \<lparr>valid_date = (\<lambda>s. s \<in> set [''2025-01-15'', ''2025-01-22'']),
      toUpperCase = ascii_upper,
      null_read_text = ''Cannot read property data of null''\<rparr>"

definition demo_request :: FlightSearchRequest where
  "demo_request =
     \<lparr>originLocationCode = ''JFK'', destinationLocationCode = ''LAX'',
      originEntityId = Some ''95565058'', destinationEntityId = Some ''95673368'',
      departureDate = ''2025-01-15'', returnDate = Some ''2025-01-22'',
      adults = Some 2, children = Some 1, infants = None,
      travelClass = Some ''BUSINESS'', currencyCode = None\<rparr>"

definition demo_envelope :: json where
  "demo_envelope =
     JObj [(''success'', JBool True),
           (''count'', JNum 7),
           (''data'', JArr [JObj [(''id'', JStr ''1'')], JObj [(''id'', JStr ''2'')]]),
           (''dictionaries'', JObj [(''carriers'', JObj [(''AA'', JStr ''American Airlines'')])])]"

definition itineraries_envelope :: json where
  "itineraries_envelope =
     JObj [(''success'', JBool True),
           (''data'', JObj [(''itineraries'',
                              JArr [JObj [(''id'', JStr ''1'')], JObj [(''id'', JStr ''2'')],
                                    JObj [(''id'', JStr ''3'')]])])]"

definition replying :: "json \<Rightarrow> nat \<Rightarrow> occasion" where
  "replying reply t =
     \<lparr>server = (\<lambda>b. Inr reply), now_ms = t, now_iso = ''2025-01-01T00:00:00.000Z''\<rparr>"

definition demo_occasion :: "nat \<Rightarrow> occasion" where
  "demo_occasion t = replying demo_envelope t"

definition demo_failure :: "nat \<Rightarrow> string option \<Rightarrow> js_error" where
  "demo_failure code m =
     \<lparr>response = Some \<lparr>status = code, data_message = m\<rparr>,
      message = ''Request failed with status code '' @ digits code\<rparr>"

definition failing_occasion :: "js_error \<Rightarrow> occasion" where
  "failing_occasion error =
     \<lparr>server = (\<lambda>b. Inl error), now_ms = 1735689600000, now_iso = ''2025-01-01T00:00:00.000Z''\<rparr>"

definition demo_world :: "(string \<rightharpoonup> stored) \<Rightarrow> bool list \<Rightarrow> world" where
  "demo_world kv script = \<lparr>items = kv, faults = script, writes = [], posted = []\<rparr>"

definition demo_context :: flight_context where
  "demo_context = \<lparr>flightOffers = JArr [], recentSearches = JArr [], isLoading = False, searchError = None\<rparr>"

definition demo_calls :: "(occasion \<times> FlightSearchRequest) list" where
  "demo_calls = map (\<lambda>t. (demo_occasion t, demo_request)) [1, 2, 3, 4, 5, 6, 7, 8, 9, 10, 11]"

definition undated_request :: FlightSearchRequest where
  "undated_request = demo_request\<lparr>originEntityId := None, departureDate := ''tomorrow''\<rparr>"

definition lower_case_request :: FlightSearchRequest where
  "lower_case_request = demo_request\<lparr>travelClass := Some ''first''\<rparr>"

definition same_route_request :: FlightSearchRequest where
  "same_route_request = demo_request\<lparr>destinationLocationCode := ''JFK''\<rparr>"

section \<open>Basic facts about the normalizer\<close>

lemma lower_images:
  "toLowerCase ''ECONOMY'' = ''economy''"
  "toLowerCase ''PREMIUM_ECONOMY'' = ''premium_economy''"
  "toLowerCase ''BUSINESS'' = ''business''"
  "toLowerCase ''FIRST'' = ''first''"
  by code_simp+

lemma upper_fixed:
  "ascii_upper ''ECONOMY'' = ''ECONOMY''"
  "ascii_upper ''PREMIUM_ECONOMY'' = ''PREMIUM_ECONOMY''"
  "ascii_upper ''BUSINESS'' = ''BUSINESS''"
  "ascii_upper ''FIRST'' = ''FIRST''"
  by code_simp+

lemma ascii_names:
  "ascii ''ECONOMY''" "ascii ''PREMIUM_ECONOMY''" "ascii ''BUSINESS''" "ascii ''FIRST''"
  by code_simp+

lemma ascii_first: "ascii ''first''"
  by code_simp

lemma normalizeRequest_Inr: "normalizeRequest js rq = Inr b \<Longrightarrow> b = backendRequest js rq"
  by (simp add: normalizeRequest_def split: if_splits)

lemma cabinClass_field:
  "map_of (backendRequest js rq) ''cabinClass'' = Some (convertCabinClass js (travelClass rq))"
  by (simp add: backendRequest_def)

lemma demo_request_normalizes:
  "normalizeRequest demo_engine demo_request = Inr (backendRequest demo_engine demo_request)"
  by (simp add: normalizeRequest_def demo_engine_def demo_request_def falsy_def)

section \<open>Cabin class\<close>

lemma convertCabinClass_image:
  "convertCabinClass js (Some tc) =
     (if toUpperCase js tc \<in> set UI_CLASSES then toLowerCase (toUpperCase js tc) else ''economy'')"
  by (auto simp: convertCabinClass_def UI_CLASSES_def lower_images)

lemma ascii_UI_CLASSES: "u \<in> set UI_CLASSES \<Longrightarrow> ascii u \<and> ascii_upper u = u"
  by (auto simp: UI_CLASSES_def upper_fixed ascii_names)

text \<open>
  Claim C8, as amended. In every provider request that the normalizer produces, the
  cabin class is decided by the upper-case form of the travel class: when that form
  is one of \<open>ECONOMY\<close>, \<open>PREMIUM_ECONOMY\<close>, \<open>BUSINESS\<close>, \<open>FIRST\<close> the cabin class is its
  lower-snake-case image, and otherwise, or when the travel class is absent, it is
  \<open>economy\<close>. So the four values of the form give \<open>economy\<close>, \<open>premium_economy\<close>,
  \<open>business\<close>, \<open>first\<close>, and so does every other spelling with the same upper-case
  form, such as \<open>first\<close> or \<open>Business\<close>. The engine's upper-casing is a parameter; of it
  the proof uses only that ASCII text is upper-cased letter by letter.
\<close>

theorem cabin_class_image:
  assumes "normalizeRequest js rq = Inr b"
    and letters: "\<And>s. ascii s \<Longrightarrow> toUpperCase js s = ascii_upper s"
  shows "(case travelClass rq of
            None \<Rightarrow> map_of b ''cabinClass'' = Some ''economy''
          | Some tc \<Rightarrow>
              map_of b ''cabinClass'' =
                Some (if toUpperCase js tc \<in> set UI_CLASSES then toLowerCase (toUpperCase js tc)
                      else ''economy'') \<and>
              (ascii tc \<longrightarrow>
                 map_of b ''cabinClass'' =
                   Some (if ascii_upper tc \<in> set UI_CLASSES then toLowerCase (ascii_upper tc)
                         else ''economy'')) \<and>
              (tc \<in> set UI_CLASSES \<longrightarrow> map_of b ''cabinClass'' = Some (toLowerCase tc)) \<and>
              (tc = ''ECONOMY'' \<longrightarrow> map_of b ''cabinClass'' = Some ''economy'') \<and>
              (tc = ''PREMIUM_ECONOMY'' \<longrightarrow> map_of b ''cabinClass'' = Some ''premium_economy'') \<and>
              (tc = ''BUSINESS'' \<longrightarrow> map_of b ''cabinClass'' = Some ''business'') \<and>
              (tc = ''FIRST'' \<longrightarrow> map_of b ''cabinClass'' = Some ''first''))"
proof -
  have b: "map_of b ''cabinClass'' = Some (convertCabinClass js (travelClass rq))"
    using normalizeRequest_Inr [OF assms(1)] cabinClass_field by simp
  show ?thesis
  proof (cases "travelClass rq")
    case None
    then show ?thesis using b by (simp add: convertCabinClass_def)
  next
    case (Some tc)
    have full: "map_of b ''cabinClass'' =
                  Some (if toUpperCase js tc \<in> set UI_CLASSES then toLowerCase (toUpperCase js tc)
                        else ''economy'')"
      using b Some by (simp only: convertCabinClass_image)
    have plain: "map_of b ''cabinClass'' =
                   Some (if ascii_upper tc \<in> set UI_CLASSES then toLowerCase (ascii_upper tc)
                         else ''economy'')" if "ascii tc"
      using full letters [OF that] by simp
    have member: "map_of b ''cabinClass'' = Some (toLowerCase tc)" if "tc \<in> set UI_CLASSES"
      using plain ascii_UI_CLASSES [OF that] that by simp
    have four: "tc = ''ECONOMY'' \<longrightarrow> map_of b ''cabinClass'' = Some ''economy''"
      "tc = ''PREMIUM_ECONOMY'' \<longrightarrow> map_of b ''cabinClass'' = Some ''premium_economy''"
      "tc = ''BUSINESS'' \<longrightarrow> map_of b ''cabinClass'' = Some ''business''"
      "tc = ''FIRST'' \<longrightarrow> map_of b ''cabinClass'' = Some ''first''"
      using member by (auto simp: UI_CLASSES_def lower_images)
    show ?thesis using Some full plain member four by simp
  qed
qed

lemma demo_engine_letters: "ascii s \<Longrightarrow> toUpperCase demo_engine s = ascii_upper s"
  by (simp add: demo_engine_def)

theorem cabin_class_image_witness:
  "normalizeRequest demo_engine demo_request = Inr (backendRequest demo_engine demo_request)
   \<and> travelClass demo_request = Some ''BUSINESS''
   \<and> map_of (backendRequest demo_engine demo_request) ''cabinClass'' = Some ''business''"
proof -
  have t: "travelClass demo_request = Some ''BUSINESS''"
    by (simp add: demo_request_def)
  have "map_of (backendRequest demo_engine demo_request) ''cabinClass'' = Some ''business''"
    using cabin_class_image [OF demo_request_normalizes demo_engine_letters, unfolded t option.case]
    by blast
  then show ?thesis using demo_request_normalizes t by simp
qed

text \<open>
  The claim as first stated fails: \<open>first\<close> in lower case is not a value of the form's
  enumeration, yet the cabin class sent is \<open>first\<close>, not \<open>economy\<close>.
\<close>

theorem lower_case_first_counterexample:
  "''first'' \<notin> set UI_CLASSES
   \<and> travelClass lower_case_request = Some ''first''
   \<and> normalizeRequest demo_engine lower_case_request =
       Inr (backendRequest demo_engine lower_case_request)
   \<and> map_of (backendRequest demo_engine lower_case_request) ''cabinClass'' = Some ''first''
   \<and> map_of (backendRequest demo_engine lower_case_request) ''cabinClass'' \<noteq> Some ''economy''"
proof -
  have u: "toUpperCase demo_engine ''first'' = ''FIRST''"
    unfolding demo_engine_letters [OF ascii_first] by code_simp
  have c: "convertCabinClass demo_engine (Some ''first'') = ''first''"
    by (simp add: convertCabinClass_def u)
  have n: "normalizeRequest demo_engine lower_case_request =
             Inr (backendRequest demo_engine lower_case_request)"
    by (simp add: normalizeRequest_def lower_case_request_def demo_request_def demo_engine_def
          falsy_def)
  have t: "travelClass lower_case_request = Some ''first''"
    by (simp add: lower_case_request_def)
  have m: "map_of (backendRequest demo_engine lower_case_request) ''cabinClass'' = Some ''first''"
    unfolding cabinClass_field t c ..
  show ?thesis using n t m by (simp add: UI_CLASSES_def)
qed

section \<open>Storage calls that do not reject\<close>

lemma notin_tl: "x \<notin> set xs \<Longrightarrow> x \<notin> set (tl xs)"
  by (cases xs) auto

lemma calm_tl: "calm w \<Longrightarrow> calm (w\<lparr>faults := tl (faults w)\<rparr>)"
  by (cases "faults w") (auto simp: calm_def)

lemma next_fault_calm: "calm w \<Longrightarrow> next_fault w = (False, w\<lparr>faults := tl (faults w)\<rparr>)"
  by (cases "faults w") (auto simp: calm_def next_fault_def)

lemma getItem_calm:
  "calm w \<Longrightarrow> getItem k w = (Inr (items w k), w\<lparr>faults := tl (faults w)\<rparr>)"
  by (simp add: getItem_def next_fault_calm)

lemma setItem_calm:
  "calm w \<Longrightarrow> setItem k v w =
     (Inr (), w\<lparr>faults := tl (faults w), items := (items w)(k \<mapsto> v), writes := writes w @ [(k, v)]\<rparr>)"
  by (simp add: setItem_def next_fault_calm)

lemma saveRecentSearch_calm:
  assumes "calm w"
  shows "saveRecentSearch oc rq w =
     (case current_list (items w RECENT_SEARCHES_KEY) of
        None \<Rightarrow> w\<lparr>faults := tl (faults w)\<rparr>
      | Some xs \<Rightarrow>
          w\<lparr>faults := tl (tl (faults w)),
            items := (items w)(RECENT_SEARCHES_KEY \<mapsto> Stringified (JArr (take 10 (recentSearch oc rq # xs)))),
            writes := writes w @ [(RECENT_SEARCHES_KEY, Stringified (JArr (take 10 (recentSearch oc rq # xs))))]\<rparr>)"
proof -
  have c1: "calm (w\<lparr>faults := tl (faults w)\<rparr>)" using assms by (rule calm_tl)
  show ?thesis
    unfolding saveRecentSearch_def getItem_calm [OF assms]
    by (simp add: Let_def setItem_calm [OF c1] current_list_def present_def JSON_parse_def JSON_stringify_def
          split: option.splits stored.splits json.splits)
qed

lemma append_recent_step:
  assumes "calm w"
  shows "(case current_list (items w RECENT_SEARCHES_KEY) of
            Some xs \<Rightarrow>
              items (saveRecentSearch oc rq w) =
                (items w)(RECENT_SEARCHES_KEY \<mapsto> Stringified (JArr (take 10 (recentSearch oc rq # xs))))
          | None \<Rightarrow> items (saveRecentSearch oc rq w) = items w)"
  by (simp add: saveRecentSearch_calm [OF assms] split: option.splits)

section \<open>Appending a recent search\<close>

text \<open>
  Claim C4, as amended. When no storage call rejects, \<^verbatim>\<open>saveRecentSearch\<close> takes the
  current list to be empty if the stored value is absent or the empty string, and to be
  the stored array if the value is the text of a JSON array; it prepends the new
  record, keeps the first 10 and writes the result back. For every other stored value
  (text that does not parse, or JSON that is not an array) the append is given up:
  nothing is written and the store stays as it was.
\<close>

theorem append_recent_search:
  assumes "calm w"
  shows "(case current_list (items w RECENT_SEARCHES_KEY) of
            Some xs \<Rightarrow>
              items (saveRecentSearch oc rq w) =
                (items w)(RECENT_SEARCHES_KEY \<mapsto> Stringified (JArr (take 10 (recentSearch oc rq # xs))))
              \<and> writes (saveRecentSearch oc rq w) =
                  writes w @ [(RECENT_SEARCHES_KEY, Stringified (JArr (take 10 (recentSearch oc rq # xs))))]
          | None \<Rightarrow>
              items (saveRecentSearch oc rq w) = items w
              \<and> writes (saveRecentSearch oc rq w) = writes w)"
  by (simp add: saveRecentSearch_calm [OF assms] split: option.splits)


lemma calm_demo: "calm (demo_world kv [])"
  by (simp add: calm_def demo_world_def)

theorem append_recent_search_witness:
  "calm (demo_world Map.empty [])
   \<and> items (saveRecentSearch (demo_occasion 7) demo_request (demo_world Map.empty [])) RECENT_SEARCHES_KEY
       = Some (Stringified (JArr [recentSearch (demo_occasion 7) demo_request]))
   \<and> calm (demo_world [RECENT_SEARCHES_KEY \<mapsto> Stringified (JBool True)] [])
   \<and> items (saveRecentSearch (demo_occasion 7) demo_request
               (demo_world [RECENT_SEARCHES_KEY \<mapsto> Stringified (JBool True)] [])) RECENT_SEARCHES_KEY
       = Some (Stringified (JBool True))"
  using append_recent_search [OF calm_demo [of Map.empty],
                                where oc = "demo_occasion 7" and rq = demo_request]
        append_recent_search [OF calm_demo [of "[RECENT_SEARCHES_KEY \<mapsto> Stringified (JBool True)]"],
                                where oc = "demo_occasion 7" and rq = demo_request]
  by (simp add: calm_def current_list_def demo_world_def)

text \<open>
  The claim as first stated fails: after an append onto a stored value that does not
  parse, the store still holds that value, not a one-element list.
\<close>

theorem append_onto_corrupt_counterexample:
  "items (demo_world [RECENT_SEARCHES_KEY \<mapsto> Unparsable] []) RECENT_SEARCHES_KEY = Some Unparsable
   \<and> items (saveRecentSearch (demo_occasion 7) demo_request
               (demo_world [RECENT_SEARCHES_KEY \<mapsto> Unparsable] [])) RECENT_SEARCHES_KEY
       = Some Unparsable
   \<and> items (saveRecentSearch (demo_occasion 7) demo_request
               (demo_world [RECENT_SEARCHES_KEY \<mapsto> Unparsable] [])) RECENT_SEARCHES_KEY
       \<noteq> Some (Stringified (JArr [recentSearch (demo_occasion 7) demo_request]))
   \<and> writes (saveRecentSearch (demo_occasion 7) demo_request
               (demo_world [RECENT_SEARCHES_KEY \<mapsto> Unparsable] [])) = []"
  by (simp add: saveRecentSearch_def getItem_def next_fault_def demo_world_def present_def
        JSON_parse_def)

section \<open>Popular routes\<close>

lemma getPopularRoutes_calm:
  assumes "calm w"
  shows "getPopularRoutes w =
     (case items w POPULAR_ROUTES_KEY of
        Some (Stringified v) \<Rightarrow> (v, w\<lparr>faults := tl (faults w)\<rparr>)
      | Some Unparsable \<Rightarrow> (mockPopularRoutes, w\<lparr>faults := tl (faults w)\<rparr>)
      | _ \<Rightarrow>
          (mockPopularRoutes,
           w\<lparr>faults := tl (tl (faults w)),
             items := (items w)(POPULAR_ROUTES_KEY \<mapsto> Stringified mockPopularRoutes),
             writes := writes w @ [(POPULAR_ROUTES_KEY, Stringified mockPopularRoutes)]\<rparr>))"
proof -
  have c1: "calm (w\<lparr>faults := tl (faults w)\<rparr>)" using assms by (rule calm_tl)
  show ?thesis
    unfolding getPopularRoutes_def getItem_calm [OF assms]
    by (simp add: setItem_calm [OF c1] present_def JSON_parse_def JSON_stringify_def
          split: option.splits stored.splits)
qed

lemma getPopularRoutes_keeps_calm: "calm w \<Longrightarrow> calm (snd (getPopularRoutes w))"
  by (auto simp: getPopularRoutes_calm calm_def notin_tl split: option.splits stored.splits)

text \<open>
  Claim C7, as amended. When no storage call rejects, two calls of
  \<^verbatim>\<open>getPopularRoutes\<close> in succession return the same content, and the second call
  writes nothing and leaves the store as the first call left it. The first call writes
  the seed list exactly when the stored value is absent or the empty string, and then
  returns the seed; a later call returns what the stored text parses to.
\<close>

theorem popular_routes_read_through:
  assumes "calm w"
  shows "fst (getPopularRoutes (snd (getPopularRoutes w))) = fst (getPopularRoutes w)
         \<and> writes (snd (getPopularRoutes (snd (getPopularRoutes w)))) = writes (snd (getPopularRoutes w))
         \<and> items (snd (getPopularRoutes (snd (getPopularRoutes w)))) = items (snd (getPopularRoutes w))
         \<and> (if present (items w POPULAR_ROUTES_KEY)
             then writes (snd (getPopularRoutes w)) = writes w
                  \<and> items (snd (getPopularRoutes w)) = items w
             else writes (snd (getPopularRoutes w)) =
                    writes w @ [(POPULAR_ROUTES_KEY, Stringified mockPopularRoutes)]
                  \<and> items (snd (getPopularRoutes w)) =
                      (items w)(POPULAR_ROUTES_KEY \<mapsto> Stringified mockPopularRoutes)
                  \<and> fst (getPopularRoutes w) = mockPopularRoutes)
         \<and> (\<forall>v. items (snd (getPopularRoutes w)) POPULAR_ROUTES_KEY = Some (Stringified v)
                \<longrightarrow> fst (getPopularRoutes (snd (getPopularRoutes w))) = v)"
proof -
  have c1: "calm (snd (getPopularRoutes w))" using assms by (rule getPopularRoutes_keeps_calm)
  show ?thesis
    unfolding getPopularRoutes_calm [OF c1]
    unfolding getPopularRoutes_calm [OF assms]
    by (simp add: present_def split: option.splits stored.splits)
qed


theorem popular_routes_read_through_witness:
  "calm (demo_world Map.empty [])
   \<and> fst (getPopularRoutes (demo_world Map.empty [])) = mockPopularRoutes
   \<and> fst (getPopularRoutes (snd (getPopularRoutes (demo_world Map.empty [])))) = mockPopularRoutes
   \<and> writes (snd (getPopularRoutes (snd (getPopularRoutes (demo_world Map.empty [])))))
       = [(POPULAR_ROUTES_KEY, Stringified mockPopularRoutes)]"
  using popular_routes_read_through [OF calm_demo [of Map.empty]]
  by (simp add: calm_def demo_world_def present_def)

text \<open>
  The claim as first stated fails: the seed is also written when the key is there and
  holds the empty string.
\<close>

theorem seed_written_over_empty_string_counterexample:
  "items (demo_world [POPULAR_ROUTES_KEY \<mapsto> EmptyString] []) POPULAR_ROUTES_KEY \<noteq> None
   \<and> writes (demo_world [POPULAR_ROUTES_KEY \<mapsto> EmptyString] []) = []
   \<and> writes (snd (getPopularRoutes (demo_world [POPULAR_ROUTES_KEY \<mapsto> EmptyString] [])))
       = [(POPULAR_ROUTES_KEY, Stringified mockPopularRoutes)]"
  by (simp add: getPopularRoutes_def getItem_def setItem_def next_fault_def demo_world_def
        present_def JSON_stringify_def)

section \<open>Sequences of searches\<close>

lemma take_append_take: "take n (ys @ take n zs) = take n (ys @ zs)"
  by (simp add: min_def)

lemma searchFlights_success:
  assumes "\<not> isl (fst (searchFlights js oc rq w))"
  shows "snd (searchFlights js oc rq w) =
           saveRecentSearch oc rq (w\<lparr>posted := posted w @ [backendRequest js rq]\<rparr>)"
  using assms
  by (auto simp: searchFlights_def api_post_def Let_def dest: normalizeRequest_Inr
      split: sum.splits)

lemma saveRecentSearch_keeps_calm: "calm w \<Longrightarrow> calm (saveRecentSearch oc rq w)"
  by (auto simp: saveRecentSearch_calm calm_def notin_tl split: option.splits)

lemma calm_posted: "calm (w\<lparr>posted := p\<rparr>) = calm w"
  by (simp add: calm_def)

lemma saveRecentSearch_items:
  assumes "calm w" and "current_list (items w RECENT_SEARCHES_KEY) = Some xs"
  shows "items (saveRecentSearch oc rq w) RECENT_SEARCHES_KEY =
           Some (Stringified (JArr (take 10 (recentSearch oc rq # xs))))"
  using append_recent_step [OF assms(1), of oc rq] assms(2) by simp


lemma current_list_array: "current_list (Some (Stringified (JArr xs))) = Some xs"
  by (simp add: current_list_def)

lemma run_searches_items:
  assumes "calm w"
    and "current_list (items w RECENT_SEARCHES_KEY) = Some xs"
    and "\<forall>r \<in> set (fst (run_searches js calls w)). \<not> isl r"
    and "calls \<noteq> []"
  shows "items (snd (run_searches js calls w)) RECENT_SEARCHES_KEY =
           Some (Stringified (JArr (take 10
             (rev (map (\<lambda>c. recentSearch (fst c) (snd c)) calls) @ xs))))"
  using assms
proof (induction calls arbitrary: w xs)
  case Nil
  then show ?case by simp
next
  case (Cons c cs)
  let ?w0 = "w\<lparr>posted := posted w @ [backendRequest js (snd c)]\<rparr>"
  let ?w1 = "snd (searchFlights js (fst c) (snd c) w)"
  let ?xs1 = "take 10 (recentSearch (fst c) (snd c) # xs)"
  have ok: "\<not> isl (fst (searchFlights js (fst c) (snd c) w))"
    using Cons.prems(3) by (simp split: prod.splits)
  have rest: "\<forall>r \<in> set (fst (run_searches js cs ?w1)). \<not> isl r"
    using Cons.prems(3) by (simp split: prod.splits)
  have w1: "?w1 = saveRecentSearch (fst c) (snd c) ?w0"
    using ok by (rule searchFlights_success)
  have c0: "calm ?w0" using Cons.prems(1) by (simp add: calm_posted)
  have c1: "calm ?w1" unfolding w1 using c0 by (rule saveRecentSearch_keeps_calm)
  have l0: "current_list (items ?w0 RECENT_SEARCHES_KEY) = Some xs"
    using Cons.prems(2) by simp
  have i1: "items ?w1 RECENT_SEARCHES_KEY = Some (Stringified (JArr ?xs1))"
    unfolding w1 using c0 l0 by (rule saveRecentSearch_items)
  have l1: "current_list (items ?w1 RECENT_SEARCHES_KEY) = Some ?xs1"
    unfolding i1 by (rule current_list_array)
  have run: "snd (run_searches js (c # cs) w) = snd (run_searches js cs ?w1)"
    by (simp split: prod.splits)
  show ?case
  proof (cases "cs = []")
    case True
    then show ?thesis using i1 unfolding run by simp
  next
    case False
    have "items (snd (run_searches js cs ?w1)) RECENT_SEARCHES_KEY =
            Some (Stringified (JArr (take 10
              (rev (map (\<lambda>c. recentSearch (fst c) (snd c)) cs) @ ?xs1))))"
      using c1 l1 rest False by (rule Cons.IH)
    then show ?thesis
      unfolding run by (simp only: take_append_take list.map rev.simps append_assoc append.simps)
  qed
qed

text \<open>
  Claim C1, as amended. After more than 10 successful searches in a row, on a store
  whose calls do not reject and whose recent-searches value is absent, empty or a JSON
  array, the stored list is exactly the records of the 10 latest searches, newest
  first.
\<close>

theorem recent_searches_keep_ten:
  assumes "calm w"
    and "current_list (items w RECENT_SEARCHES_KEY) \<noteq> None"
    and "\<forall>r \<in> set (fst (run_searches js calls w)). \<not> isl r"
    and "10 < length calls"
  shows "items (snd (run_searches js calls w)) RECENT_SEARCHES_KEY =
           Some (Stringified (JArr
             (map (\<lambda>c. recentSearch (fst c) (snd c)) (take 10 (rev calls)))))"
proof -
  obtain xs where xs: "current_list (items w RECENT_SEARCHES_KEY) = Some xs"
    using assms(2) by auto
  have ne: "calls \<noteq> []" using assms(4) by auto
  have "items (snd (run_searches js calls w)) RECENT_SEARCHES_KEY =
           Some (Stringified (JArr (take 10
             (rev (map (\<lambda>c. recentSearch (fst c) (snd c)) calls) @ xs))))"
    using assms(1) xs assms(3) ne by (rule run_searches_items)
  moreover have "take 10 (rev (map (\<lambda>c. recentSearch (fst c) (snd c)) calls) @ xs) =
      map (\<lambda>c. recentSearch (fst c) (snd c)) (take 10 (rev calls))"
    using assms(4) by (simp add: take_map rev_map)
  ultimately show ?thesis by simp
qed


lemma shape_demo_envelope:
  "shape js demo_envelope =
     Inr \<lparr>data = JArr [JObj [(''id'', JStr ''1'')], JObj [(''id'', JStr ''2'')]],
          count = JNum 2,
          self = ''/flights/search'',
          dictionaries = JObj [(''carriers'', JObj [(''AA'', JStr ''American Airlines'')])]\<rparr>"
  by (simp add: shape_def demo_envelope_def property_def or_json_def truthy_def js_length_def)

lemma demo_server: "server (replying reply t) b = Inr reply"
  by (simp add: replying_def)

lemma demo_null_read_text: "null_read_text demo_engine = ''Cannot read property data of null''"
  by (simp add: demo_engine_def)

lemma shaped_demo:
  "map_sum rethrow id (shape js demo_envelope) = shape js demo_envelope"
  "\<not> isl (shape js demo_envelope)"
  by (simp_all add: shape_demo_envelope)

lemma run_searches_all_ok:
  assumes "\<forall>c \<in> set calls. \<exists>b e r. normalizeRequest js (snd c) = Inr b
                                    \<and> server (fst c) b = Inr e \<and> shape js e = Inr r"
  shows "\<forall>r \<in> set (fst (run_searches js calls w)). \<not> isl r"
  using assms
proof (induction calls arbitrary: w)
  case Nil
  then show ?case by simp
next
  case (Cons c cs)
  obtain b e r where be: "normalizeRequest js (snd c) = Inr b" "server (fst c) b = Inr e"
      "shape js e = Inr r"
    using Cons.prems by auto
  have first: "\<not> isl (fst (searchFlights js (fst c) (snd c) w))"
    by (simp add: searchFlights_def api_post_def be Let_def)
  have "\<forall>r \<in> set (fst (run_searches js cs (snd (searchFlights js (fst c) (snd c) w)))). \<not> isl r"
    using Cons.prems by (intro Cons.IH) simp
  then show ?case using first by (auto split: prod.splits)
qed

lemma demo_calls_ok:
  "\<forall>r \<in> set (fst (run_searches demo_engine demo_calls w)). \<not> isl r"
proof (rule run_searches_all_ok, rule ballI)
  fix c assume "c \<in> set demo_calls"
  then obtain t where c: "c = (demo_occasion t, demo_request)"
    by (auto simp: demo_calls_def)
  show "\<exists>b e r. normalizeRequest demo_engine (snd c) = Inr b \<and> server (fst c) b = Inr e
                 \<and> shape demo_engine e = Inr r"
    unfolding c
    by (simp add: demo_request_normalizes demo_occasion_def replying_def shape_demo_envelope)
qed

theorem recent_searches_keep_ten_witness:
  "calm (demo_world Map.empty [])
   \<and> length demo_calls = 11
   \<and> items (snd (run_searches demo_engine demo_calls (demo_world Map.empty [])))
         RECENT_SEARCHES_KEY =
       Some (Stringified (JArr
         (map (\<lambda>t. recentSearch (demo_occasion t) demo_request) [11, 10, 9, 8, 7, 6, 5, 4, 3, 2])))"
proof -
  have c: "calm (demo_world Map.empty [])" by (rule calm_demo)
  have l: "current_list (items (demo_world Map.empty []) RECENT_SEARCHES_KEY) \<noteq> None"
    by (simp add: current_list_def demo_world_def)
  have n: "10 < length demo_calls" by (simp add: demo_calls_def)
  have r: "take 10 (rev demo_calls) =
             map (\<lambda>t. (demo_occasion t, demo_request)) [11, 10, 9, 8, 7, 6, 5, 4, 3, 2]"
    by (simp add: demo_calls_def)
  show ?thesis
    using recent_searches_keep_ten [OF c l demo_calls_ok n] c
    by (simp add: r demo_calls_def)
qed


lemma saveRecentSearch_corrupt:
  "current_list (items w RECENT_SEARCHES_KEY) = None \<Longrightarrow>
     items (saveRecentSearch oc rq w) = items w"
  by (auto simp: saveRecentSearch_def getItem_def next_fault_def current_list_def present_def
        JSON_parse_def split: list.splits option.splits stored.splits json.splits)

lemma searchFlights_corrupt:
  "current_list (items w RECENT_SEARCHES_KEY) = None \<Longrightarrow>
     items (snd (searchFlights js oc rq w)) = items w"
  by (simp add: searchFlights_def api_post_def Let_def saveRecentSearch_corrupt
        split: sum.splits)

lemma run_searches_Cons:
  "fst (run_searches js (c # cs) w) =
     fst (searchFlights js (fst c) (snd c) w)
       # fst (run_searches js cs (snd (searchFlights js (fst c) (snd c) w)))"
  "snd (run_searches js (c # cs) w) =
     snd (run_searches js cs (snd (searchFlights js (fst c) (snd c) w)))"
  by (simp_all split: prod.splits)

lemma run_searches_corrupt:
  "current_list (items w RECENT_SEARCHES_KEY) = None \<Longrightarrow>
     items (snd (run_searches js calls w)) = items w"
proof (induction calls arbitrary: w)
  case Nil
  then show ?case by simp
next
  case (Cons c cs)
  have one: "items (snd (searchFlights js (fst c) (snd c) w)) = items w"
    using Cons.prems by (rule searchFlights_corrupt)
  then have "current_list (items (snd (searchFlights js (fst c) (snd c) w)) RECENT_SEARCHES_KEY) = None"
    using Cons.prems by simp
  then have "items (snd (run_searches js cs (snd (searchFlights js (fst c) (snd c) w)))) =
               items (snd (searchFlights js (fst c) (snd c) w))"
    by (rule Cons.IH)
  then show ?case using one by (simp only: run_searches_Cons)
qed

lemma length_run_searches: "length (fst (run_searches js calls w)) = length calls"
  by (induction calls arbitrary: w) (simp_all only: run_searches_Cons list.size, simp_all)

lemma none_isl: "\<forall>r \<in> set rs. \<not> isl r \<Longrightarrow> map isl rs = replicate (length rs) False"
  by (induction rs) auto

text \<open>
  The claim as first stated fails: on a stored value that does not parse, eleven
  successful searches leave the store as it was, holding no list at all.
\<close>

theorem corrupt_store_keeps_no_list_counterexample:
  "length demo_calls = 11
   \<and> map isl (fst (run_searches demo_engine demo_calls
                     (demo_world [RECENT_SEARCHES_KEY \<mapsto> Unparsable] []))) = replicate 11 False
   \<and> items (snd (run_searches demo_engine demo_calls
                   (demo_world [RECENT_SEARCHES_KEY \<mapsto> Unparsable] []))) RECENT_SEARCHES_KEY
       = Some Unparsable"
proof -
  have n: "length demo_calls = 11" by (simp add: demo_calls_def)
  have ok: "map isl (fst (run_searches demo_engine demo_calls
                     (demo_world [RECENT_SEARCHES_KEY \<mapsto> Unparsable] []))) = replicate 11 False"
    using none_isl [OF demo_calls_ok, of "demo_world [RECENT_SEARCHES_KEY \<mapsto> Unparsable] []"]
    by (simp only: length_run_searches n)
  have c: "current_list (items (demo_world [RECENT_SEARCHES_KEY \<mapsto> Unparsable] [])
             RECENT_SEARCHES_KEY) = None"
    by (simp add: current_list_def demo_world_def)
  show ?thesis
    using n ok run_searches_corrupt [OF c, of demo_engine demo_calls]
    by (simp add: demo_world_def)
qed

section \<open>Searching\<close>

lemma searchFlights_rejected:
  "normalizeRequest js rq = Inl err \<Longrightarrow>
     searchFlights js oc rq w = (Inl (rethrow err), w)"
  by (simp add: searchFlights_def)

lemma searchFlights_posted:
  "normalizeRequest js rq = Inr b \<Longrightarrow>
     searchFlights js oc rq w =
       (case server oc b of
          Inl err \<Rightarrow> (Inl (rethrow err), w\<lparr>posted := posted w @ [b]\<rparr>)
        | Inr e \<Rightarrow>
            (map_sum rethrow id (shape js e),
             saveRecentSearch oc rq (w\<lparr>posted := posted w @ [b]\<rparr>)))"
  by (simp add: searchFlights_def api_post_def Let_def split: sum.splits)

lemma rethrow_Error: "rethrow (Error m) = Error (''Flight search failed: '' @ m)"
  by (simp add: rethrow_def Error_def or_else_def)

lemma trim_empty: "trim '''' = ''''"
  by (simp add: trim_def)

lemma returnDate_field:
  "map_of (backendRequest js rq) ''returnDate'' =
     (case returnDate rq of
        None \<Rightarrow> None
      | Some rd \<Rightarrow> if rd \<noteq> '''' \<and> trim rd \<noteq> '''' \<and> valid_date js rd then Some rd else None)"
  by (simp add: backendRequest_def split: option.splits)

text \<open>
  Claim C2. For every request with both entity identifiers present, a departure date
  that parses and both location codes present, the normalizer produces a provider
  request, and that request omits \<open>returnDate\<close> exactly when the return date is absent
  or does not parse; a field that is sent echoes the input. The search then fails only
  if the backend call fails, never because of the return date. The engine's date
  parser is a parameter; of it the proof uses only that blank text is not a date.
\<close>

theorem return_date_lenient:
  assumes blank: "\<And>s. valid_date js s \<Longrightarrow> trim s \<noteq> ''''"
    and ids: "\<not> falsy (originEntityId rq)" "\<not> falsy (destinationEntityId rq)"
    and dep: "valid_date js (departureDate rq)"
    and codes: "originLocationCode rq \<noteq> ''''" "destinationLocationCode rq \<noteq> ''''"
  shows "\<exists>b. normalizeRequest js rq = Inr b
           \<and> (''returnDate'' \<notin> fst ` set b) =
               (case returnDate rq of None \<Rightarrow> True | Some rd \<Rightarrow> \<not> valid_date js rd)
           \<and> (\<forall>rd. map_of b ''returnDate'' = Some rd \<longrightarrow> returnDate rq = Some rd)
           \<and> fst (searchFlights js oc rq w) =
               (case server oc b of
                  Inl err \<Rightarrow> Inl (rethrow err)
                | Inr e \<Rightarrow> map_sum rethrow id (shape js e))"
proof -
  let ?b = "backendRequest js rq"
  have n: "normalizeRequest js rq = Inr ?b"
    using ids dep codes by (simp add: normalizeRequest_def)
  have nonblank: "rd \<noteq> '''' \<and> trim rd \<noteq> ''''" if "valid_date js rd" for rd
    using blank [OF that] trim_empty by auto
  have m: "map_of ?b ''returnDate'' =
             (case returnDate rq of None \<Rightarrow> None
              | Some rd \<Rightarrow> if valid_date js rd then Some rd else None)"
    unfolding returnDate_field using nonblank by (auto split: option.splits)
  have omit: "(''returnDate'' \<notin> fst ` set ?b) =
               (case returnDate rq of None \<Rightarrow> True | Some rd \<Rightarrow> \<not> valid_date js rd)"
    unfolding map_of_eq_None_iff [symmetric] m by (simp split: option.splits)
  have echo: "\<forall>rd. map_of ?b ''returnDate'' = Some rd \<longrightarrow> returnDate rq = Some rd"
    unfolding m by (simp split: option.splits if_splits)
  have s: "fst (searchFlights js oc rq w) =
             (case server oc ?b of
                Inl err \<Rightarrow> Inl (rethrow err)
              | Inr e \<Rightarrow> map_sum rethrow id (shape js e))"
    by (simp add: searchFlights_posted [OF n] split: sum.splits)
  show ?thesis using n omit echo s by blast
qed


lemma demo_dates_nonblank: "trim ''2025-01-15'' \<noteq> ''''" "trim ''2025-01-22'' \<noteq> ''''"
  by code_simp+

lemma demo_valid_date_nonblank: "valid_date demo_engine s \<Longrightarrow> trim s \<noteq> ''''"
  using demo_dates_nonblank by (auto simp: demo_engine_def)

theorem return_date_lenient_witness:
  "\<exists>b. normalizeRequest demo_engine (demo_request\<lparr>returnDate := Some ''next week''\<rparr>) = Inr b
      \<and> ''returnDate'' \<notin> fst ` set b
      \<and> fst (searchFlights demo_engine (demo_occasion 7)
                (demo_request\<lparr>returnDate := Some ''next week''\<rparr>) (demo_world Map.empty []))
          = shape demo_engine demo_envelope
      \<and> \<not> isl (shape demo_engine demo_envelope)"
proof -
  let ?rq = "demo_request\<lparr>returnDate := Some ''next week''\<rparr>"
  have ids: "\<not> falsy (originEntityId ?rq)" "\<not> falsy (destinationEntityId ?rq)"
    by (simp_all add: demo_request_def falsy_def)
  have dep: "valid_date demo_engine (departureDate ?rq)"
    by (simp add: demo_request_def demo_engine_def)
  have codes: "originLocationCode ?rq \<noteq> ''''" "destinationLocationCode ?rq \<noteq> ''''"
    by (simp_all add: demo_request_def)
  have ret: "returnDate ?rq = Some ''next week''" "\<not> valid_date demo_engine ''next week''"
    by (simp_all add: demo_engine_def)
  obtain b where b: "normalizeRequest demo_engine ?rq = Inr b"
      "(''returnDate'' \<notin> fst ` set b) =
         (case returnDate ?rq of None \<Rightarrow> True | Some rd \<Rightarrow> \<not> valid_date demo_engine rd)"
      "fst (searchFlights demo_engine (demo_occasion 7) ?rq (demo_world Map.empty [])) =
         (case server (demo_occasion 7) b of
            Inl err \<Rightarrow> Inl (rethrow err)
          | Inr e \<Rightarrow> map_sum rethrow id (shape demo_engine e))"
    using return_date_lenient [of demo_engine ?rq "demo_occasion 7" "demo_world Map.empty []",
                               OF demo_valid_date_nonblank ids dep codes]
    by blast
  have "''returnDate'' \<notin> fst ` set b" unfolding b(2) ret(1) using ret(2) by simp
  moreover have "fst (searchFlights demo_engine (demo_occasion 7) ?rq (demo_world Map.empty []))
                   = shape demo_engine demo_envelope"
    unfolding b(3) by (simp add: demo_occasion_def replying_def shaped_demo)
  ultimately show ?thesis using b(1) shaped_demo(2) by blast
qed


text \<open>
  Claim C3, as amended. Every request that lacks the origin or the destination entity
  identifier makes \<^verbatim>\<open>searchFlights\<close> fail with the world untouched: nothing is posted
  and nothing is stored. The error is the one of the first check that fails: the
  invalid-departure-date error, then the codes-required error, and the
  entity-identifiers-required error when the departure date parses and both codes are
  present; the \<^verbatim>\<open>catch\<close> block re-throws it under the \<open>Flight search failed:\<close> prefix.
\<close>

theorem missing_entity_ids_rejected:
  assumes "falsy (originEntityId rq) \<or> falsy (destinationEntityId rq)"
  shows "searchFlights js oc rq w =
           (Inl (Error (''Flight search failed: '' @
                   (if \<not> valid_date js (departureDate rq) then INVALID_DEPARTURE
                    else if originLocationCode rq = '''' \<or> destinationLocationCode rq = ''''
                      then CODES_REQUIRED
                    else ENTITY_IDS_REQUIRED))),
            w)"
proof -
  have "normalizeRequest js rq =
          Inl (Error (if \<not> valid_date js (departureDate rq) then INVALID_DEPARTURE
                      else if originLocationCode rq = '''' \<or> destinationLocationCode rq = ''''
                        then CODES_REQUIRED
                      else ENTITY_IDS_REQUIRED))"
    using assms by (simp add: normalizeRequest_def)
  then show ?thesis
    by (simp only: searchFlights_rejected rethrow_Error)
qed

theorem missing_entity_ids_rejected_witness:
  "falsy (originEntityId (demo_request\<lparr>originEntityId := None\<rparr>))
   \<and> searchFlights demo_engine (demo_occasion 7) (demo_request\<lparr>originEntityId := None\<rparr>)
        (demo_world Map.empty []) =
       (Inl (Error (''Flight search failed: '' @ ENTITY_IDS_REQUIRED)), demo_world Map.empty [])"
proof -
  let ?rq = "demo_request\<lparr>originEntityId := None\<rparr>"
  have f: "falsy (originEntityId ?rq) \<or> falsy (destinationEntityId ?rq)"
    by (simp add: falsy_def)
  have g: "valid_date demo_engine (departureDate ?rq)" "originLocationCode ?rq \<noteq> ''''"
    "destinationLocationCode ?rq \<noteq> ''''"
    by (simp_all add: demo_request_def demo_engine_def)
  show ?thesis
    using missing_entity_ids_rejected [OF f, of demo_engine "demo_occasion 7" "demo_world Map.empty []"] g
    by (simp add: falsy_def)
qed

text \<open>
  The claim as first stated fails: with no origin entity identifier and a departure
  date that does not parse, the error is the invalid-date one.
\<close>

theorem invalid_date_first_counterexample:
  "falsy (originEntityId undated_request)
   \<and> fst (searchFlights demo_engine (demo_occasion 7) undated_request (demo_world Map.empty []))
       = Inl (Error ''Flight search failed: Invalid departure date format'')
   \<and> fst (searchFlights demo_engine (demo_occasion 7) undated_request (demo_world Map.empty []))
       \<noteq> Inl (Error (''Flight search failed: '' @ ENTITY_IDS_REQUIRED))
   \<and> fst (searchFlights demo_engine (demo_occasion 7) undated_request (demo_world Map.empty []))
       \<noteq> Inl (Error ENTITY_IDS_REQUIRED)"
proof -
  have n: "normalizeRequest demo_engine undated_request = Inl (Error INVALID_DEPARTURE)"
    by (simp add: normalizeRequest_def undated_request_def demo_engine_def)
  show ?thesis
    unfolding searchFlights_rejected [OF n] rethrow_Error
    by (simp add: falsy_def undated_request_def INVALID_DEPARTURE_def ENTITY_IDS_REQUIRED_def Error_def)
qed

text \<open>
  Claim C5, as amended. When the backend call succeeds with a body that is not null,
  the search returns a response, never an error. If the body's \<open>data\<close> field is absent
  or falsy, the response has no offers and \<open>count\<close> 0. If \<open>data\<close> is an array, the
  response carries that array and \<open>count\<close> is its length, whatever else the body
  reports. Any other truthy \<open>data\<close> is passed through as it is, with \<open>count\<close> its own
  \<open>length\<close> property or 0. The dictionaries are passed through when present and truthy
  and are the empty object otherwise. With a null body the search fails with the
  \<open>Flight search failed:\<close> error.
\<close>

theorem response_shaped:
  assumes "normalizeRequest js rq = Inr b" and "server oc b = Inr body"
  shows "(body = JNull \<longrightarrow>
            fst (searchFlights js oc rq w) =
              Inl (Error (''Flight search failed: '' @ null_read_text js)))
         \<and> (body \<noteq> JNull \<longrightarrow>
              (\<exists>r. fst (searchFlights js oc rq w) = Inr r
                 \<and> (property body ''data'' = None \<longrightarrow> data r = JArr [] \<and> count r = JNum 0)
                 \<and> (\<forall>v. property body ''data'' = Some v \<and> \<not> truthy v \<longrightarrow>
                        data r = JArr [] \<and> count r = JNum 0)
                 \<and> (\<forall>xs. property body ''data'' = Some (JArr xs) \<longrightarrow>
                        data r = JArr xs \<and> count r = JNum (int (length xs)))
                 \<and> (\<forall>v. property body ''data'' = Some v \<and> truthy v \<longrightarrow>
                        data r = v \<and> count r = or_json (js_length v) (JNum 0))
                 \<and> (property body ''dictionaries'' = None \<longrightarrow> dictionaries r = JObj [])
                 \<and> (\<forall>d. property body ''dictionaries'' = Some d \<longrightarrow>
                        dictionaries r = (if truthy d then d else JObj []))))"
proof (intro conjI impI)
  assume "body = JNull"
  then show "fst (searchFlights js oc rq w) =
               Inl (Error (''Flight search failed: '' @ null_read_text js))"
    by (simp add: searchFlights_posted [OF assms(1)] assms(2) shape_def rethrow_Error)
next
  assume nn: "body \<noteq> JNull"
  let ?r = "\<lparr>data = or_json (property body ''data'') (JArr []),
            count = or_json (js_length (or_json (property body ''data'') (JArr []))) (JNum 0),
            self = ''/flights/search'',
            dictionaries = or_json (property body ''dictionaries'') (JObj [])\<rparr>"
  have r: "fst (searchFlights js oc rq w) = Inr ?r"
    using nn by (simp add: searchFlights_posted [OF assms(1)] assms(2) shape_def Let_def)
  have absent: "property body ''data'' = None \<longrightarrow> data ?r = JArr [] \<and> count ?r = JNum 0"
    by (simp add: or_json_def js_length_def truthy_def)
  have falsy_data: "\<forall>v. property body ''data'' = Some v \<and> \<not> truthy v \<longrightarrow>
                      data ?r = JArr [] \<and> count ?r = JNum 0"
    by (simp add: or_json_def js_length_def truthy_def)
  have array: "\<forall>xs. property body ''data'' = Some (JArr xs) \<longrightarrow>
                 data ?r = JArr xs \<and> count ?r = JNum (int (length xs))"
    by (simp add: or_json_def js_length_def truthy_def)
  have other: "\<forall>v. property body ''data'' = Some v \<and> truthy v \<longrightarrow>
                 data ?r = v \<and> count ?r = or_json (js_length v) (JNum 0)"
    by (simp add: or_json_def)
  have nodict: "property body ''dictionaries'' = None \<longrightarrow> dictionaries ?r = JObj []"
    by (simp add: or_json_def)
  have dict: "\<forall>d. property body ''dictionaries'' = Some d \<longrightarrow>
                dictionaries ?r = (if truthy d then d else JObj [])"
    by (simp add: or_json_def)
  show "\<exists>r. fst (searchFlights js oc rq w) = Inr r
          \<and> (property body ''data'' = None \<longrightarrow> data r = JArr [] \<and> count r = JNum 0)
          \<and> (\<forall>v. property body ''data'' = Some v \<and> \<not> truthy v \<longrightarrow>
                 data r = JArr [] \<and> count r = JNum 0)
          \<and> (\<forall>xs. property body ''data'' = Some (JArr xs) \<longrightarrow>
                 data r = JArr xs \<and> count r = JNum (int (length xs)))
          \<and> (\<forall>v. property body ''data'' = Some v \<and> truthy v \<longrightarrow>
                 data r = v \<and> count r = or_json (js_length v) (JNum 0))
          \<and> (property body ''dictionaries'' = None \<longrightarrow> dictionaries r = JObj [])
          \<and> (\<forall>d. property body ''dictionaries'' = Some d \<longrightarrow>
                 dictionaries r = (if truthy d then d else JObj []))"
    by (intro exI [of _ ?r] conjI r absent falsy_data array other nodict dict)
qed

theorem response_shaped_witness:
  "\<exists>r. fst (searchFlights demo_engine (demo_occasion 7) demo_request (demo_world Map.empty [])) = Inr r
      \<and> data r = JArr [JObj [(''id'', JStr ''1'')], JObj [(''id'', JStr ''2'')]]
      \<and> count r = JNum 2
      \<and> dictionaries r = JObj [(''carriers'', JObj [(''AA'', JStr ''American Airlines'')])]"
proof -
  have s: "server (demo_occasion 7) (backendRequest demo_engine demo_request) = Inr demo_envelope"
    by (simp add: demo_occasion_def demo_server)
  have nn: "demo_envelope \<noteq> JNull"
    by (simp add: demo_envelope_def)
  have d: "property demo_envelope ''data'' =
             Some (JArr [JObj [(''id'', JStr ''1'')], JObj [(''id'', JStr ''2'')]])"
    "property demo_envelope ''dictionaries'' =
       Some (JObj [(''carriers'', JObj [(''AA'', JStr ''American Airlines'')])])"
    by (simp_all add: demo_envelope_def property_def)
  obtain r where r: "fst (searchFlights demo_engine (demo_occasion 7) demo_request
                            (demo_world Map.empty [])) = Inr r"
      "\<forall>xs. property demo_envelope ''data'' = Some (JArr xs) \<longrightarrow>
          data r = JArr xs \<and> count r = JNum (int (length xs))"
      "\<forall>d. property demo_envelope ''dictionaries'' = Some d \<longrightarrow>
          dictionaries r = (if truthy d then d else JObj [])"
    using response_shaped [OF demo_request_normalizes s, of "demo_world Map.empty []"] nn
    by blast
  have "data r = JArr [JObj [(''id'', JStr ''1'')], JObj [(''id'', JStr ''2'')]]" "count r = JNum 2"
    using r(2) d(1) by simp_all
  moreover have "dictionaries r = JObj [(''carriers'', JObj [(''AA'', JStr ''American Airlines'')])]"
    using r(3) d(2) by (simp add: truthy_def)
  ultimately show ?thesis using r(1) by blast
qed

text \<open>
  The claim as first stated fails twice. A null body has no \<open>data\<close> field, and the
  search ends in an error. A body whose \<open>data\<close> is an object holding three itineraries
  is passed through with \<open>count\<close> 0.
\<close>

theorem null_body_and_object_data_counterexample:
  "server (replying JNull 7) (backendRequest demo_engine demo_request) = Inr JNull
   \<and> fst (searchFlights demo_engine (replying JNull 7) demo_request (demo_world Map.empty []))
       = Inl (Error ''Flight search failed: Cannot read property data of null'')
   \<and> server (replying itineraries_envelope 7) (backendRequest demo_engine demo_request)
       = Inr itineraries_envelope
   \<and> fst (searchFlights demo_engine (replying itineraries_envelope 7) demo_request
            (demo_world Map.empty []))
       = Inr \<lparr>data = JObj [(''itineraries'',
                             JArr [JObj [(''id'', JStr ''1'')], JObj [(''id'', JStr ''2'')],
                                   JObj [(''id'', JStr ''3'')]])],
              count = JNum 0,
              self = ''/flights/search'',
              dictionaries = JObj []\<rparr>"
proof -
  have a: "fst (searchFlights demo_engine (replying JNull 7) demo_request (demo_world Map.empty []))
             = Inl (Error ''Flight search failed: Cannot read property data of null'')"
    by (simp add: searchFlights_posted [OF demo_request_normalizes] demo_server shape_def
          rethrow_Error demo_null_read_text)
  have b: "fst (searchFlights demo_engine (replying itineraries_envelope 7) demo_request
                  (demo_world Map.empty []))
             = Inr \<lparr>data = JObj [(''itineraries'',
                             JArr [JObj [(''id'', JStr ''1'')], JObj [(''id'', JStr ''2'')],
                                   JObj [(''id'', JStr ''3'')]])],
                    count = JNum 0,
                    self = ''/flights/search'',
                    dictionaries = JObj []\<rparr>"
    by (simp add: searchFlights_posted [OF demo_request_normalizes] demo_server shape_def
          itineraries_envelope_def property_def or_json_def truthy_def js_length_def)
  show ?thesis using a b by (simp add: demo_server)
qed

lemma auth_not_search_failed: "Error AUTH_REQUIRED \<noteq> Error (''Flight search failed: '' @ m)"
  by (simp add: Error_def AUTH_REQUIRED_def)

text \<open>
  Claim C6. When the backend call fails, \<^verbatim>\<open>searchFlights\<close> throws the
  authentication-required error for status 401, and otherwise the
  \<open>Flight search failed:\<close> error carrying the backend's message when it sent a
  non-empty one and the transport error's message when it did not; the two errors
  are never equal.
\<close>

theorem upstream_failure_surfaced:
  assumes "normalizeRequest js rq = Inr b" and "server oc b = Inl err"
  shows "fst (searchFlights js oc rq w) =
           Inl (if map_option status (response err) = Some 401 then Error AUTH_REQUIRED
                else Error (''Flight search failed: '' @
                       (case upstream_message err of Some m \<Rightarrow> m | None \<Rightarrow> message err)))
         \<and> Error AUTH_REQUIRED \<noteq> Error (''Flight search failed: '' @ other)"
proof -
  have "or_else (case response err of None \<Rightarrow> None | Some r \<Rightarrow> data_message r) (message err) =
          (case upstream_message err of Some m \<Rightarrow> m | None \<Rightarrow> message err)"
    by (simp add: or_else_def upstream_message_def split: option.splits)
  then have "fst (searchFlights js oc rq w) =
           Inl (if map_option status (response err) = Some 401 then Error AUTH_REQUIRED
                else Error (''Flight search failed: '' @
                       (case upstream_message err of Some m \<Rightarrow> m | None \<Rightarrow> message err)))"
    by (cases "map_option status (response err) = Some 401")
       (simp_all only: searchFlights_posted [OF assms(1)] assms(2) rethrow_def Let_def
          sum.case fst_conv if_True if_False)
  then show ?thesis using auth_not_search_failed by blast
qed


theorem upstream_failure_surfaced_witness:
  "fst (searchFlights demo_engine (failing_occasion (demo_failure 401 None)) demo_request
          (demo_world Map.empty [])) = Inl (Error AUTH_REQUIRED)
   \<and> fst (searchFlights demo_engine (failing_occasion (demo_failure 500 (Some ''Upstream down'')))
          demo_request (demo_world Map.empty [])) = Inl (Error ''Flight search failed: Upstream down'')"
proof -
  have s: "server (failing_occasion err) (backendRequest demo_engine demo_request) = Inl err" for err
    by (simp add: failing_occasion_def)
  show ?thesis
    using upstream_failure_surfaced [OF demo_request_normalizes s, of "demo_failure 401 None"
            "demo_world Map.empty []"]
          upstream_failure_surfaced [OF demo_request_normalizes s, of "demo_failure 500 (Some ''Upstream down'')"
            "demo_world Map.empty []"]
    by (simp add: demo_failure_def upstream_message_def)
qed

section \<open>Equal origin and destination\<close>

lemma handleSearch_same_codes:
  assumes "originLocationCode rq = destinationLocationCode rq"
  shows "handleSearch js oc rq cw =
           (if originLocationCode rq = '''' \<or> departureDate rq = ''''
            then Alert ''Missing Information'' ''Please fill in all required fields''
            else Alert ''Invalid Route'' ''Origin and destination cannot be the same'', cw)"
  using assms by (simp add: handleSearch_def)

text \<open>
  Claim C9, as amended. A request whose origin code equals its destination code is
  turned down by \<^verbatim>\<open>handleSearch\<close> of the search screen with an alert, before the service
  is called: the world is untouched, so whatever the screen posts has different codes.
  \<^verbatim>\<open>searchFlights\<close> itself makes no such comparison: every request that passes its three
  checks is posted.
\<close>

theorem same_route_stopped_by_screen:
  "(originLocationCode rq = destinationLocationCode rq \<longrightarrow>
      (\<exists>title msg. handleSearch js oc rq (c, w) = (Alert title msg, c, w)))
   \<and> (posted (snd (snd (handleSearch js oc rq (c, w)))) \<noteq> posted w \<longrightarrow>
        originLocationCode rq \<noteq> destinationLocationCode rq)
   \<and> (normalizeRequest js rq = Inr b \<longrightarrow>
        posted (snd (searchFlights js oc rq w)) = posted w @ [b])"
proof (intro conjI impI)
  assume "originLocationCode rq = destinationLocationCode rq"
  then show "\<exists>title msg. handleSearch js oc rq (c, w) = (Alert title msg, c, w)"
    by (simp add: handleSearch_same_codes)
next
  assume p: "posted (snd (snd (handleSearch js oc rq (c, w)))) \<noteq> posted w"
  show "originLocationCode rq \<noteq> destinationLocationCode rq"
  proof
    assume "originLocationCode rq = destinationLocationCode rq"
    then have "snd (snd (handleSearch js oc rq (c, w))) = w"
      by (simp add: handleSearch_same_codes)
    then show False using p by simp
  qed
next
  assume n: "normalizeRequest js rq = Inr b"
  have "posted (saveRecentSearch oc rq w') = posted w'" for w'
    by (simp add: saveRecentSearch_def getItem_def setItem_def next_fault_def Let_def
          split: list.splits sum.splits json.splits)
  then show "posted (snd (searchFlights js oc rq w)) = posted w @ [b]"
    by (simp add: searchFlights_posted [OF n] split: sum.splits)
qed


theorem same_route_stopped_by_screen_witness:
  "originLocationCode same_route_request = destinationLocationCode same_route_request
   \<and> handleSearch demo_engine (demo_occasion 7) same_route_request
        (demo_context, demo_world Map.empty []) =
       (Alert ''Invalid Route'' ''Origin and destination cannot be the same'',
        demo_context, demo_world Map.empty [])"
proof -
  have same: "originLocationCode same_route_request = destinationLocationCode same_route_request"
    by (simp add: same_route_request_def demo_request_def)
  obtain title msg where
    "handleSearch demo_engine (demo_occasion 7) same_route_request
       (demo_context, demo_world Map.empty []) = (Alert title msg, demo_context, demo_world Map.empty [])"
    using same_route_stopped_by_screen [of same_route_request demo_engine "demo_occasion 7"
            demo_context "demo_world Map.empty []"] same
    by blast
  moreover have "fst (handleSearch demo_engine (demo_occasion 7) same_route_request
                        (demo_context, demo_world Map.empty [])) =
                 Alert ''Invalid Route'' ''Origin and destination cannot be the same''"
    by (simp add: handleSearch_def same_route_request_def demo_request_def)
  ultimately show ?thesis using same by simp
qed

text \<open>
  The claim as first stated fails: given directly to \<^verbatim>\<open>searchFlights\<close>, a request from
  JFK to JFK passes the checks and is posted.
\<close>

theorem same_route_posted_counterexample:
  "originLocationCode same_route_request = destinationLocationCode same_route_request
   \<and> normalizeRequest demo_engine same_route_request =
       Inr (backendRequest demo_engine same_route_request)
   \<and> map_of (backendRequest demo_engine same_route_request) ''originSkyId'' = Some ''JFK''
   \<and> map_of (backendRequest demo_engine same_route_request) ''destinationSkyId'' = Some ''JFK''
   \<and> posted (demo_world Map.empty []) = []
   \<and> posted (snd (searchFlights demo_engine (demo_occasion 7) same_route_request
                     (demo_world Map.empty []))) =
       [backendRequest demo_engine same_route_request]
   \<and> fst (searchFlights demo_engine (demo_occasion 7) same_route_request
             (demo_world Map.empty [])) = shape demo_engine demo_envelope
   \<and> \<not> isl (shape demo_engine demo_envelope)"
proof -
  have n: "normalizeRequest demo_engine same_route_request =
             Inr (backendRequest demo_engine same_route_request)"
    by (simp add: normalizeRequest_def same_route_request_def demo_request_def demo_engine_def
          falsy_def)
  have f: "map_of (backendRequest demo_engine same_route_request) ''originSkyId'' = Some ''JFK''"
    "map_of (backendRequest demo_engine same_route_request) ''destinationSkyId'' = Some ''JFK''"
    by (simp_all add: backendRequest_def same_route_request_def demo_request_def)
  have p: "posted (saveRecentSearch oc rq w') = posted w'" for oc rq w'
    by (simp add: saveRecentSearch_def getItem_def setItem_def next_fault_def Let_def
          split: list.splits sum.splits json.splits)
  have same: "originLocationCode same_route_request = destinationLocationCode same_route_request"
    by (simp add: same_route_request_def demo_request_def)
  have s: "server (demo_occasion 7) (backendRequest demo_engine same_route_request) = Inr demo_envelope"
    by (simp add: demo_occasion_def replying_def)
  have r: "fst (searchFlights demo_engine (demo_occasion 7) same_route_request
             (demo_world Map.empty [])) = shape demo_engine demo_envelope"
    by (simp add: searchFlights_posted [OF n] s shaped_demo)
  have q: "posted (snd (searchFlights demo_engine (demo_occasion 7) same_route_request
                     (demo_world Map.empty []))) =
             [backendRequest demo_engine same_route_request]"
    by (simp add: searchFlights_posted [OF n] s p) (simp add: demo_world_def)
  have e: "posted (demo_world Map.empty []) = []"
    by (simp add: demo_world_def)
  show ?thesis using same n f e q r shaped_demo(2) by blast
qed

section \<open>Storage failures during a search\<close>

text \<open>
  Claim C10, as amended. When the backend call succeeds, what \<^verbatim>\<open>searchFlights\<close> returns
  is decided by the reply body alone, whatever the store holds and whichever storage
  calls reject: the shaped response for every body that is not null (and the
  \<open>Flight search failed:\<close> error for a null body). When the read or the write of the
  append rejects, nothing is stored and the result is the same.
\<close>

theorem search_result_survives_storage_failure:
  assumes "normalizeRequest js rq = Inr b" and "server oc b = Inr e"
  shows "fst (searchFlights js oc rq w) = map_sum rethrow id (shape js e)
         \<and> (e \<noteq> JNull \<longrightarrow>
              (\<exists>r. shape js e = Inr r \<and> fst (searchFlights js oc rq w) = Inr r))
         \<and> (faults w = True # fs \<longrightarrow> items (snd (searchFlights js oc rq w)) = items w)
         \<and> (faults w = False # True # fs \<longrightarrow> items (snd (searchFlights js oc rq w)) = items w)"
proof (intro conjI impI)
  show r: "fst (searchFlights js oc rq w) = map_sum rethrow id (shape js e)"
    by (simp add: searchFlights_posted [OF assms(1)] assms(2))
  show "\<exists>r. shape js e = Inr r \<and> fst (searchFlights js oc rq w) = Inr r" if "e \<noteq> JNull"
    unfolding r using that by (simp add: shape_def Let_def)
  show "items (snd (searchFlights js oc rq w)) = items w" if "faults w = True # fs"
    using that
    by (simp add: searchFlights_posted [OF assms(1)] assms(2) saveRecentSearch_def getItem_def
          next_fault_def)
  show "items (snd (searchFlights js oc rq w)) = items w" if "faults w = False # True # fs"
    using that
    by (simp add: searchFlights_posted [OF assms(1)] assms(2) saveRecentSearch_def getItem_def
          setItem_def next_fault_def Let_def split: sum.splits json.splits)
qed

theorem search_result_survives_storage_failure_witness:
  "fst (searchFlights demo_engine (demo_occasion 7) demo_request (demo_world Map.empty [True]))
     = shape demo_engine demo_envelope
   \<and> \<not> isl (shape demo_engine demo_envelope)
   \<and> items (snd (searchFlights demo_engine (demo_occasion 7) demo_request
                   (demo_world Map.empty [True]))) = Map.empty
   \<and> fst (searchFlights demo_engine (demo_occasion 7) demo_request
            (demo_world Map.empty [False, True])) = shape demo_engine demo_envelope
   \<and> items (snd (searchFlights demo_engine (demo_occasion 7) demo_request
                   (demo_world Map.empty [False, True]))) = Map.empty"
proof -
  have s: "server (demo_occasion 7) (backendRequest demo_engine demo_request) = Inr demo_envelope"
    by (simp add: demo_occasion_def demo_server)
  show ?thesis
    using search_result_survives_storage_failure [OF demo_request_normalizes s,
            of "demo_world Map.empty [True]" "[]"]
          search_result_survives_storage_failure [OF demo_request_normalizes s,
            of "demo_world Map.empty [False, True]" "[]"]
    by (simp add: demo_world_def shaped_demo)
qed

text \<open>
  The claim as first stated fails: with a null body the POST has succeeded and the
  recent search has been stored, yet the search ends in an error.
\<close>

theorem null_body_fails_after_save_counterexample:
  "server (replying JNull 7) (backendRequest demo_engine demo_request) = Inr JNull
   \<and> isl (fst (searchFlights demo_engine (replying JNull 7) demo_request (demo_world Map.empty [])))
   \<and> items (snd (searchFlights demo_engine (replying JNull 7) demo_request
                   (demo_world Map.empty []))) RECENT_SEARCHES_KEY
       = Some (Stringified (JArr [recentSearch (replying JNull 7) demo_request]))"
proof -
  have a: "isl (fst (searchFlights demo_engine (replying JNull 7) demo_request
                       (demo_world Map.empty [])))"
    by (simp add: searchFlights_posted [OF demo_request_normalizes] demo_server shape_def)
  have c: "calm ((demo_world Map.empty [])\<lparr>posted := [backendRequest demo_engine demo_request]\<rparr>)"
    by (simp add: calm_def demo_world_def)
  have b: "items (snd (searchFlights demo_engine (replying JNull 7) demo_request
                         (demo_world Map.empty []))) RECENT_SEARCHES_KEY
             = Some (Stringified (JArr [recentSearch (replying JNull 7) demo_request]))"
    using saveRecentSearch_items [OF c, of "[]" "replying JNull 7" demo_request]
    by (simp add: searchFlights_posted [OF demo_request_normalizes] demo_server
          current_list_def demo_world_def)
  show ?thesis using a b by (simp add: demo_server)
qed

end
